theory Spec2Isabelle
  imports Main "HOL-Library.Sublist"
begin

section \<open>The response document of googleActionResponse.js\<close>

text \<open>
  The class \<^verbatim>\<open>GoogleActionResponse\<close> wraps one JSON object, \<^verbatim>\<open>responseObj\<close>, and
  mutates it in place. The object may be the default skeleton of the constructor or any
  object handed to the constructor, so every property can be missing: a property is an
  \<open>option\<close>, with \<open>None\<close> for JavaScript's \<^verbatim>\<open>undefined\<close>. Reading a property
  \<^emph>\<open>of\<close> \<^verbatim>\<open>undefined\<close> throws a \<^verbatim>\<open>TypeError\<close>; the methods that throw return
  \<open>js_error + 'a\<close>. A method that mutates the document returns the new document;
  when it throws, the result is the error alone, and what it had written before the
  throw is not observed.
  Properties that none of the methods below reads or writes (suggestions, link-out
  suggestion, expected inputs) are not part of the records.
\<close>

datatype js_error = TypeError | Error string

record card_image =
  url :: string
  accessibilityText :: string
  width :: "int option"
  height :: "int option"

record open_url_action =
  action_url :: string

record button =
  button_title :: string
  openUrlAction :: open_url_action

record basic_card =
  title :: "string option"
  subtitle :: "string option"
  formattedText :: "string option"
  card_image :: "card_image option"
  buttons :: "button list option"

text \<open>\<^verbatim>\<open>{ssml: ...}\<close>: the shape of a simple response and of a no-input prompt.\<close>

record ssml_object =
  ssml :: "string option"

record item =
  simpleResponse :: "ssml_object option"
  basicCard :: "basic_card option"

record rich_response =
  items :: "item list option"

record permissions_request_obj =
  permissions :: "string list option"

record option_info =
  key :: string
  synonyms :: "string list"

record option_item =
  item_title :: "string option"
  description :: "string option"
  item_image :: "card_image option"
  optionInfo :: option_info

text \<open>The classes \<^verbatim>\<open>List\<close> and \<^verbatim>\<open>Carousel\<close>: a \<^verbatim>\<open>Collection\<close>, the list with its title.\<close>

record collection =
  collection_items :: "option_item list"
  collection_title :: "string option"

text \<open>The payload of a system intent; \<open>at_type\<close> is the key \<^verbatim>\<open>'@type'\<close>.\<close>

record intent_data =
  listSelect :: "collection option"
  carouselSelect :: "collection option"
  at_type :: string

record system_intent =
  intent :: string
  intent_data :: intent_data

record google_obj =
  expectUserResponse :: "bool option"
  richResponse :: "rich_response option"
  noInputPrompts :: "ssml_object list option"
  systemIntent :: "system_intent option"
  permissions_request :: "permissions_request_obj option"

record data_obj =
  google :: "google_obj option"

text \<open>A context: \<^verbatim>\<open>{name, parameters}\<close>; the values of the parameters are of any type \<open>'v\<close>.\<close>

record 'v context_out =
  name :: "string option"
  parameters :: "(string \<rightharpoonup> 'v) option"

record 'v response_obj =
  speech :: "string option"
  data :: "data_obj option"
  contextOut :: "'v context_out list option"

definition PERMISSIONS_ENUM_NAME :: string where
  "PERMISSIONS_ENUM_NAME = ''NAME''"

definition PERMISSIONS_ENUM_DEVICE_COARSE_LOCATION :: string where
  "PERMISSIONS_ENUM_DEVICE_COARSE_LOCATION = ''DEVICE_COARSE_LOCATION''"

definition PERMISSIONS_ENUM_DEVICE_PRECISE_LOCATION :: string where
  "PERMISSIONS_ENUM_DEVICE_PRECISE_LOCATION = ''DEVICE_PRECISE_LOCATION''"

subsection \<open>The constructor\<close>

definition default_responseObj :: "'v response_obj" where
  "default_responseObj =
     \<lparr>speech = Some ''<speak></speak>'',
      data = Some \<lparr>google = Some
        \<lparr>expectUserResponse = Some True,
         richResponse = Some \<lparr>items = Some []\<rparr>,
         noInputPrompts = None,
         systemIntent = None,
         permissions_request = None\<rparr>\<rparr>,
      contextOut = None\<rparr>"

text \<open>An object is always truthy, so a given \<^verbatim>\<open>responseObj\<close> replaces the skeleton as it is.\<close>

definition GoogleActionResponse :: "'v response_obj option \<Rightarrow> 'v response_obj" where
  "GoogleActionResponse responseObj =
     (case responseObj of None \<Rightarrow> default_responseObj | Some r \<Rightarrow> r)"

subsection \<open>Property access\<close>

text \<open>
  \<open>read_of x f\<close>: go on with the value of a property that the code reads a further
  property of (or indexes, or calls a method of); on \<^verbatim>\<open>undefined\<close> that read throws.
\<close>

definition read_of :: "'a option \<Rightarrow> ('a \<Rightarrow> js_error + 'b) \<Rightarrow> js_error + 'b" where
  "read_of x f = (case x of None \<Rightarrow> Inl TypeError | Some v \<Rightarrow> f v)"

text \<open>
  An optional string argument under \<^verbatim>\<open>if (arg)\<close>: \<^verbatim>\<open>undefined\<close> and the empty
  string are both falsy.
\<close>

definition given :: "string option \<Rightarrow> string option" where
  "given arg = (case arg of None \<Rightarrow> None | Some s \<Rightarrow> if s = [] then None else Some s)"

subsection \<open>Speech markup\<close>

text \<open>
  \<^verbatim>\<open>text.replace(/pat/g, '')\<close> for a pattern without regular-expression operators:
  the matches are found from left to right, each search starting behind the last match,
  and what is left is not searched again.
\<close>

fun replace_all :: "string \<Rightarrow> string \<Rightarrow> string" where
  "replace_all pat [] = []"
| "replace_all pat (c # cs) =
     (if pat \<noteq> [] \<and> prefix pat (c # cs)
      then replace_all pat (drop (length pat) (c # cs))
      else c # replace_all pat cs)"

definition removeSpeakTags :: "string \<Rightarrow> string" where
  "removeSpeakTags text = replace_all ''</speak>'' (replace_all ''<speak>'' text)"

definition toSSML :: "string \<Rightarrow> string" where
  "toSSML text =
     (let text = replace_all ''</speak>'' (replace_all ''<speak>'' text)
      in ''<speak>'' @ text @ ''</speak>'')"

text \<open>\<^verbatim>\<open>text.indexOf(str) > -1\<close>: \<open>str\<close> occurs in \<open>text\<close>.\<close>

fun indexOf_found :: "string \<Rightarrow> string \<Rightarrow> bool" where
  "indexOf_found [] str = (str = [])"
| "indexOf_found (c # cs) str = (prefix str (c # cs) \<or> indexOf_found cs str)"

subsection \<open>Contexts\<close>

text \<open>The empty object \<^verbatim>\<open>{}\<close> that \<^verbatim>\<open>getContextOut\<close> returns when no name matches.\<close>

definition empty_context :: "'v context_out" where
  "empty_context = \<lparr>name = None, parameters = None\<rparr>"

text \<open>The loop of \<^verbatim>\<open>getContextOut\<close>: the first context of that name.\<close>

fun find_context :: "'v context_out list \<Rightarrow> string \<Rightarrow> 'v context_out" where
  "find_context [] n = empty_context"
| "find_context (c # cs) n = (if name c = Some n then c else find_context cs n)"

definition getContextOut :: "'v response_obj \<Rightarrow> string \<Rightarrow> js_error + 'v context_out" where
  "getContextOut r n = read_of (contextOut r) (\<lambda>cs. Inr (find_context cs n))"

definition setContextOut :: "'v response_obj \<Rightarrow> 'v context_out list \<Rightarrow> 'v response_obj" where
  "setContextOut r contexts = r\<lparr>contextOut := Some contexts\<rparr>"

definition addContextOutObject ::
  "'v response_obj \<Rightarrow> 'v context_out \<Rightarrow> js_error + 'v response_obj" where
  "addContextOutObject r c =
     read_of (contextOut r) (\<lambda>cs. Inr (r\<lparr>contextOut := Some (cs @ [c])\<rparr>))"

text \<open>
  \<^verbatim>\<open>getContextOut\<close> returns the stored object itself, so what is written to it is written
  to the document: \<open>update_context f cs n\<close> applies \<open>f\<close> to the first context named
  \<open>n\<close>. When there is none, the object written to is the fresh \<^verbatim>\<open>{}\<close>, which the
  document does not hold.
\<close>

fun update_context ::
  "('v context_out \<Rightarrow> 'v context_out) \<Rightarrow> 'v context_out list \<Rightarrow> string \<Rightarrow> 'v context_out list" where
  "update_context f [] n = []"
| "update_context f (c # cs) n =
     (if name c = Some n then f c # cs else c # update_context f cs n)"

text \<open>
  \<^verbatim>\<open>_.set(context, `parameters.${parameterName}`, value)\<close> is lodash's: the function is
  a parameter, \<open>lodash_set\<close>, that gets the object, the path and the value and
  returns the object as written.
\<close>

definition addContextOutParameter ::
  "('v context_out \<Rightarrow> string \<Rightarrow> 'v \<Rightarrow> 'v context_out) \<Rightarrow>
   'v response_obj \<Rightarrow> string \<Rightarrow> string \<Rightarrow> 'v \<Rightarrow> js_error + 'v response_obj" where
  "addContextOutParameter lodash_set r contextName parameterName v =
     read_of (contextOut r) (\<lambda>cs.
       Inr (r\<lparr>contextOut := Some
         (update_context (\<lambda>c. lodash_set c (''parameters.'' @ parameterName) v) cs contextName)\<rparr>))"

text \<open>Every object is truthy, the empty one too: \<^verbatim>\<open>!context\<close> is false for each of them.\<close>

definition object_truthy :: "'a \<Rightarrow> bool" where
  "object_truthy obj = True"

text \<open>
  \<^verbatim>\<open>Object.keys(context).length === 0\<close>, the right operand of the \<^verbatim>\<open>||\<close> in
  \<^verbatim>\<open>hasContextOutParameter\<close>, evaluated when the left one is false.
\<close>

definition no_keys :: "'v context_out \<Rightarrow> bool" where
  "no_keys c = (name c = None \<and> parameters c = None)"

definition getContextOutParameter ::
  "'v response_obj \<Rightarrow> string \<Rightarrow> string \<Rightarrow> js_error + 'v option" where
  "getContextOutParameter r contextName parameterName =
     (case getContextOut r contextName of
        Inl e \<Rightarrow> Inl e
      | Inr c \<Rightarrow>
          if \<not> object_truthy c
          then Inl (Error (''No context with name '' @ contextName @ '' found.''))
          else read_of (parameters c) (\<lambda>ps. Inr (ps parameterName)))"

subsection \<open>Writing below \<^verbatim>\<open>data.google\<close> with lodash\<close>

text \<open>
  \<^verbatim>\<open>_.set(this.responseObj, 'data.google.<key>', value)\<close> with a path of fixed keys:
  an object that is missing on the way is created empty, then the key is written.
  \<open>set_in_google r f\<close> writes with \<open>f\<close> in the object \<^verbatim>\<open>data.google\<close>.
\<close>

definition empty_google :: google_obj where
  "empty_google =
     \<lparr>expectUserResponse = None, richResponse = None, noInputPrompts = None,
      systemIntent = None, permissions_request = None\<rparr>"

definition set_in_google :: "'v response_obj \<Rightarrow> (google_obj \<Rightarrow> google_obj) \<Rightarrow> 'v response_obj" where
  "set_in_google r f =
     (let d = (case data r of None \<Rightarrow> \<lparr>google = None\<rparr> | Some d \<Rightarrow> d);
          g = (case google d of None \<Rightarrow> empty_google | Some g \<Rightarrow> g)
      in r\<lparr>data := Some (d\<lparr>google := Some (f g)\<rparr>)\<rparr>)"

subsection \<open>Permissions\<close>

text \<open>
  \<^verbatim>\<open>_.get(this, 'responseObj.data.google.permissions_request.permissions', [])\<close>:
  the stored array, or the default when an object on the path or the array is missing.
\<close>

definition getPermissions :: "'v response_obj \<Rightarrow> string list" where
  "getPermissions r =
     (case data r of None \<Rightarrow> [] | Some d \<Rightarrow>
      (case google d of None \<Rightarrow> [] | Some g \<Rightarrow>
       (case permissions_request g of None \<Rightarrow> [] | Some pr \<Rightarrow>
        (case permissions pr of None \<Rightarrow> [] | Some ps \<Rightarrow> ps))))"

text \<open>
  Modelled from the spec: \<^verbatim>\<open>_.uniq\<close> is lodash's and not part of the source. The
  specification has it deduplicate preserving first occurrence; lodash documents the
  same (only the first occurrence of each element is kept, in the order of the array).
  \<open>uniq_into seen xs\<close> is the loop: a value is added to the result unless the result
  has it already.
\<close>

fun uniq_into :: "'a list \<Rightarrow> 'a list \<Rightarrow> 'a list" where
  "uniq_into seen [] = seen"
| "uniq_into seen (x # xs) =
     (if x \<in> set seen then uniq_into seen xs else uniq_into (seen @ [x]) xs)"

definition uniq :: "'a list \<Rightarrow> 'a list" where
  "uniq xs = uniq_into [] xs"

definition setPermissionToResponse :: "'v response_obj \<Rightarrow> string \<Rightarrow> 'v response_obj" where
  "setPermissionToResponse r permission =
     (let permissionArray = getPermissions r @ [permission];
          permissionArray = uniq permissionArray
      in set_in_google r (\<lambda>g. g\<lparr>permissions_request := Some
           ((case permissions_request g of None \<Rightarrow> \<lparr>permissions = None\<rparr> | Some pr \<Rightarrow> pr)
              \<lparr>permissions := Some permissionArray\<rparr>)\<rparr>))"

definition setNamePermission :: "'v response_obj \<Rightarrow> 'v response_obj" where
  "setNamePermission r = setPermissionToResponse r PERMISSIONS_ENUM_NAME"

definition setDeviceCoarseLocationPermission :: "'v response_obj \<Rightarrow> 'v response_obj" where
  "setDeviceCoarseLocationPermission r =
     setPermissionToResponse r PERMISSIONS_ENUM_DEVICE_COARSE_LOCATION"

definition setDevicePreciseLocationPermission :: "'v response_obj \<Rightarrow> 'v response_obj" where
  "setDevicePreciseLocationPermission r =
     setPermissionToResponse r PERMISSIONS_ENUM_DEVICE_PRECISE_LOCATION"

text \<open>\<open>occurs_before p q xs\<close>: \<open>p\<close> stands in \<open>xs\<close> ahead of the first \<open>q\<close>.\<close>

definition occurs_before :: "'a \<Rightarrow> 'a \<Rightarrow> 'a list \<Rightarrow> bool" where
  "occurs_before p q xs = (p \<in> set (takeWhile (\<lambda>x. x \<noteq> q) xs))"

subsection \<open>Speech\<close>

definition simple_item :: "string \<Rightarrow> item" where
  "simple_item sp = \<lparr>simpleResponse = Some \<lparr>ssml = Some sp\<rparr>, basicCard = None\<rparr>"

text \<open>
  \<^verbatim>\<open>tell\<close> writes \<^verbatim>\<open>speech\<close>, then \<^verbatim>\<open>data.google.expectUserResponse\<close>, then puts
  the item in front of \<^verbatim>\<open>data.google.richResponse.items\<close>; each of the two last throws
  when an object on its path is missing. The argument is stored as it is given.
\<close>

definition tell :: "'v response_obj \<Rightarrow> string \<Rightarrow> js_error + 'v response_obj" where
  "tell r sp =
     read_of (data r) (\<lambda>d. read_of (google d) (\<lambda>g.
     read_of (richResponse g) (\<lambda>rr. read_of (items rr) (\<lambda>its.
       Inr (r\<lparr>speech := Some sp,
              data := Some (d\<lparr>google := Some
                (g\<lparr>expectUserResponse := Some False,
                   richResponse := Some (rr\<lparr>items := Some (simple_item sp # its)\<rparr>)\<rparr>)\<rparr>)\<rparr>)))))"

definition ask :: "'v response_obj \<Rightarrow> string \<Rightarrow> string \<Rightarrow> js_error + 'v response_obj" where
  "ask r sp repromptSpeech =
     read_of (data r) (\<lambda>d. read_of (google d) (\<lambda>g.
     read_of (richResponse g) (\<lambda>rr. read_of (items rr) (\<lambda>its.
       Inr (r\<lparr>speech := Some sp,
              data := Some (d\<lparr>google := Some
                (g\<lparr>expectUserResponse := Some True,
                   richResponse := Some (rr\<lparr>items := Some (simple_item sp # its)\<rparr>),
                   noInputPrompts := Some [\<lparr>ssml = Some repromptSpeech\<rparr>]\<rparr>)\<rparr>)\<rparr>)))))"

definition audio_speech :: "string \<Rightarrow> string \<Rightarrow> string" where
  "audio_speech audioUrl fallbackText =
     ''<speak><audio src=\"'' @ audioUrl @ ''\">'' @ fallbackText @ ''</audio></speak>''"

definition play :: "'v response_obj \<Rightarrow> string \<Rightarrow> string \<Rightarrow> js_error + 'v response_obj" where
  "play r audioUrl fallbackText = tell r (audio_speech audioUrl fallbackText)"

text \<open>
  What a document holds at \<^verbatim>\<open>data.google.expectUserResponse\<close> and at
  \<^verbatim>\<open>data.google.noInputPrompts\<close>, \<open>None\<close> when it or its path is missing.
\<close>

definition stored_expectUserResponse :: "'v response_obj \<Rightarrow> bool option" where
  "stored_expectUserResponse r = Option.bind (Option.bind (data r) google) expectUserResponse"

definition stored_noInputPrompts :: "'v response_obj \<Rightarrow> ssml_object list option" where
  "stored_noInputPrompts r = Option.bind (Option.bind (data r) google) noInputPrompts"

text \<open>\<^verbatim>\<open>this.responseObj.data.google.richResponse.items\<close>.\<close>

definition get_items :: "'v response_obj \<Rightarrow> js_error + item list" where
  "get_items r =
     read_of (data r) (\<lambda>d. read_of (google d) (\<lambda>g.
     read_of (richResponse g) (\<lambda>rr. read_of (items rr) Inr)))"

text \<open>\<^verbatim>\<open>(...).items[0].simpleResponse.ssml\<close>: \<^verbatim>\<open>items[0]\<close> of an empty array is \<^verbatim>\<open>undefined\<close>.\<close>

definition head_ssml :: "'v response_obj \<Rightarrow> js_error + string option" where
  "head_ssml r =
     (case get_items r of
        Inl e \<Rightarrow> Inl e
      | Inr [] \<Rightarrow> Inl TypeError
      | Inr (it # _) \<Rightarrow> read_of (simpleResponse it) (\<lambda>sr. Inr (ssml sr)))"

definition getSpeechText :: "'v response_obj \<Rightarrow> js_error + string" where
  "getSpeechText r =
     (case head_ssml r of
        Inl e \<Rightarrow> Inl e
      | Inr s \<Rightarrow> (case given s of Some t \<Rightarrow> Inr (removeSpeakTags t) | None \<Rightarrow> Inr []))"

subsection \<open>Lists and carousels\<close>

definition addList :: "'v response_obj \<Rightarrow> collection \<Rightarrow> 'v response_obj" where
  "addList r list =
     (let systemIntent =
        \<lparr>intent = ''actions.intent.OPTION'',
         intent_data =
           \<lparr>listSelect = Some list, carouselSelect = None,
            at_type = ''type.googleapis.com/google.actions.v2.OptionValueSpec''\<rparr>\<rparr>
      in set_in_google r (\<lambda>g. g\<lparr>systemIntent := Some systemIntent\<rparr>))"

definition addCarousel :: "'v response_obj \<Rightarrow> collection \<Rightarrow> 'v response_obj" where
  "addCarousel r carousel =
     (let systemIntent =
        \<lparr>intent = ''actions.intent.OPTION'',
         intent_data =
           \<lparr>listSelect = None, carouselSelect = Some carousel,
            at_type = ''type.googleapis.com/google.actions.v2.OptionValueSpec''\<rparr>\<rparr>
      in set_in_google r (\<lambda>g. g\<lparr>systemIntent := Some systemIntent\<rparr>))"

text \<open>A sequence of calls of the two, run from left to right.\<close>

datatype option_call = AddList collection | AddCarousel collection

fun run_call :: "'v response_obj \<Rightarrow> option_call \<Rightarrow> 'v response_obj" where
  "run_call r (AddList list) = addList r list"
| "run_call r (AddCarousel carousel) = addCarousel r carousel"

definition run_calls :: "'v response_obj \<Rightarrow> option_call list \<Rightarrow> 'v response_obj" where
  "run_calls r cs = foldl run_call r cs"

text \<open>\<^verbatim>\<open>data.google.systemIntent\<close> of a document, \<open>None\<close> when it or its path is missing.\<close>

definition stored_systemIntent :: "'v response_obj \<Rightarrow> system_intent option" where
  "stored_systemIntent r = Option.bind (Option.bind (data r) google) systemIntent"

subsection \<open>Introspection predicates\<close>

text \<open>\<^verbatim>\<open>try { ... } catch (err) { return false; }\<close> around a check.\<close>

definition caught :: "js_error + bool \<Rightarrow> bool" where
  "caught res = (case res of Inl err \<Rightarrow> False | Inr b \<Rightarrow> b)"

text \<open>
  Two checks in a row: the second runs when the first neither threw nor returned false.
\<close>

definition and_then :: "js_error + bool \<Rightarrow> js_error + bool \<Rightarrow> js_error + bool" where
  "and_then first second =
     (case first of Inl e \<Rightarrow> Inl e | Inr False \<Rightarrow> Inr False | Inr True \<Rightarrow> second)"

text \<open>
  The block \<^verbatim>\<open>if (speechText) { ... }\<close> that \<^verbatim>\<open>isTell\<close> and \<^verbatim>\<open>isAsk\<close> share:
  \<^verbatim>\<open>speech\<close> and the ssml of the first item are compared with \<^verbatim>\<open>toSSML(speechText)\<close>.
\<close>

definition speech_checks :: "'v response_obj \<Rightarrow> string option \<Rightarrow> js_error + bool" where
  "speech_checks r speechText =
     (case given speechText of
        None \<Rightarrow> Inr True
      | Some st \<Rightarrow>
          if speech r \<noteq> Some (toSSML st) then Inr False
          else (case head_ssml r of
                  Inl e \<Rightarrow> Inl e
                | Inr s \<Rightarrow> if s \<noteq> Some (toSSML st) then Inr False else Inr True))"

definition isTell_try :: "'v response_obj \<Rightarrow> string option \<Rightarrow> js_error + bool" where
  "isTell_try r speechText =
     read_of (data r) (\<lambda>d. read_of (google d) (\<lambda>g.
       if expectUserResponse g \<noteq> Some False then Inr False
       else speech_checks r speechText))"

definition isTell :: "'v response_obj \<Rightarrow> string option \<Rightarrow> bool" where
  "isTell r speechText = caught (isTell_try r speechText)"

definition reprompt_check :: "google_obj \<Rightarrow> string option \<Rightarrow> js_error + bool" where
  "reprompt_check g repromptText =
     (case given repromptText of
        None \<Rightarrow> Inr True
      | Some rt \<Rightarrow>
          read_of (noInputPrompts g) (\<lambda>prompts.
            (case prompts of
               [] \<Rightarrow> Inl TypeError
             | p # _ \<Rightarrow> if ssml p \<noteq> Some (toSSML rt) then Inr False else Inr True)))"

definition isAsk_try :: "'v response_obj \<Rightarrow> string option \<Rightarrow> string option \<Rightarrow> js_error + bool" where
  "isAsk_try r speechText repromptText =
     read_of (data r) (\<lambda>d. read_of (google d) (\<lambda>g.
       if expectUserResponse g \<noteq> Some True then Inr False
       else and_then (speech_checks r speechText) (reprompt_check g repromptText)))"

definition isAsk :: "'v response_obj \<Rightarrow> string option \<Rightarrow> string option \<Rightarrow> bool" where
  "isAsk r speechText repromptText = caught (isAsk_try r speechText repromptText)"

definition isPlay :: "'v response_obj \<Rightarrow> string \<Rightarrow> string \<Rightarrow> bool" where
  "isPlay r audioUrl fallbackText = isTell r (Some (audio_speech audioUrl fallbackText))"

definition isEmptyResponse :: "'v response_obj \<Rightarrow> bool" where
  "isEmptyResponse r = isTell r (Some ''<break time=\"1ms\"/>'')"

text \<open>
  \<^verbatim>\<open>if (arg) { if (stored !== arg) { return false; } }\<close>: \<open>matches arg stored\<close> is
  false when that block returns false.
\<close>

definition matches :: "string option \<Rightarrow> string option \<Rightarrow> bool" where
  "matches arg stored = (case given arg of None \<Rightarrow> True | Some a \<Rightarrow> stored = Some a)"

text \<open>
  \<^verbatim>\<open>items.filter(function(item) { return item.basicCard; })\<close>, then
  \<^verbatim>\<open>basicCards[0].basicCard\<close> when the result is not empty.
\<close>

definition first_basicCard :: "'v response_obj \<Rightarrow> js_error + basic_card option" where
  "first_basicCard r =
     (case get_items r of
        Inl e \<Rightarrow> Inl e
      | Inr its \<Rightarrow>
          (case filter (\<lambda>item. basicCard item \<noteq> None) its of
             [] \<Rightarrow> Inr None
           | first # _ \<Rightarrow> Inr (basicCard first)))"

definition hasBasicCard_try ::
  "'v response_obj \<Rightarrow> string option \<Rightarrow> string option \<Rightarrow> js_error + bool" where
  "hasBasicCard_try r title' formattedText' =
     (case first_basicCard r of
        Inl e \<Rightarrow> Inl e
      | Inr None \<Rightarrow> Inr False
      | Inr (Some basic) \<Rightarrow>
          if \<not> matches title' (title basic) then Inr False
          else if \<not> matches formattedText' (formattedText basic) then Inr False
          else Inr True)"

definition hasBasicCard :: "'v response_obj \<Rightarrow> string option \<Rightarrow> string option \<Rightarrow> bool" where
  "hasBasicCard r title' formattedText' = caught (hasBasicCard_try r title' formattedText')"

text \<open>
  \<^verbatim>\<open>if (arg) { if (basicCards[0].basicCard.image.<field> !== arg) ... }\<close>: the image is
  read only when the argument is given, and the read throws when the card has none.
\<close>

definition image_check ::
  "basic_card \<Rightarrow> string option \<Rightarrow> (card_image \<Rightarrow> string) \<Rightarrow> js_error + bool" where
  "image_check basic arg field =
     (case given arg of
        None \<Rightarrow> Inr True
      | Some a \<Rightarrow>
          read_of (card_image basic) (\<lambda>im. if field im \<noteq> a then Inr False else Inr True))"

definition hasImageCard_try ::
  "'v response_obj \<Rightarrow> string option \<Rightarrow> string option \<Rightarrow> js_error + bool" where
  "hasImageCard_try r imageUrl accessibilityText' =
     (case first_basicCard r of
        Inl e \<Rightarrow> Inl e
      | Inr None \<Rightarrow> Inr False
      | Inr (Some basic) \<Rightarrow>
          and_then (image_check basic imageUrl url)
                   (image_check basic accessibilityText' accessibilityText))"

definition hasImageCard ::
  "'v response_obj \<Rightarrow> string option \<Rightarrow> string option \<Rightarrow> string option \<Rightarrow> string option \<Rightarrow> bool" where
  "hasImageCard r title' formattedText' imageUrl accessibilityText' =
     (if \<not> hasBasicCard r title' formattedText' then False
      else caught (hasImageCard_try r imageUrl accessibilityText'))"

text \<open>
  \<^verbatim>\<open>hasContextOutParameter\<close>, \<^verbatim>\<open>hasState\<close> and \<^verbatim>\<open>speechTextContains\<close> have no
  \<^verbatim>\<open>try\<close>: what \<^verbatim>\<open>getContextOut\<close>, \<^verbatim>\<open>context.parameters[...]\<close> and
  \<^verbatim>\<open>getSpeechText\<close> throw reaches the caller.
\<close>

definition hasContextOutParameter ::
  "'v response_obj \<Rightarrow> string \<Rightarrow> string option \<Rightarrow> 'v option \<Rightarrow> js_error + bool" where
  "hasContextOutParameter r contextName parameterName v =
     (case getContextOut r contextName of
        Inl e \<Rightarrow> Inl e
      | Inr c \<Rightarrow>
          if \<not> object_truthy c then Inr False
          else if no_keys c then Inr False
          else (case given parameterName of
                  None \<Rightarrow> Inr True
                | Some pn \<Rightarrow>
                    read_of (parameters c) (\<lambda>ps.
                      if ps pn \<noteq> v then Inr False else Inr True)))"

definition hasState :: "'v response_obj \<Rightarrow> 'v option \<Rightarrow> js_error + bool" where
  "hasState r state = hasContextOutParameter r ''session'' (Some ''STATE'') state"

text \<open>
  The argument of \<^verbatim>\<open>speechTextContains\<close> is a string or an array of strings. The
  result of the loop over an array is dropped; \<^verbatim>\<open>indexOf\<close> then gets the array, which
  it converts to a string, the elements joined by commas.
\<close>

datatype str_or_array = Str string | Arr "string list"

fun join_commas :: "string list \<Rightarrow> string" where
  "join_commas [] = []"
| "join_commas [x] = x"
| "join_commas (x # y # ys) = x @ '','' @ join_commas (y # ys)"

definition speechTextContains :: "'v response_obj \<Rightarrow> str_or_array \<Rightarrow> js_error + bool" where
  "speechTextContains r str =
     (case getSpeechText r of
        Inl e \<Rightarrow> Inl e
      | Inr speechText \<Rightarrow>
          Inr (indexOf_found speechText (case str of Str s \<Rightarrow> s | Arr a \<Rightarrow> join_commas a)))"

section \<open>Properties\<close>

subsection \<open>Speech markup\<close>

lemma prefix_open_tag_append:
  "prefix ''<speak>'' (u @ ''</speak>'') \<Longrightarrow> prefix ''<speak>'' u"
  by (auto simp: prefix_append Cons_eq_append_conv)

lemma prefix_close_tag_append:
  "prefix ''</speak>'' (u @ ''</speak>'') \<Longrightarrow> u \<noteq> [] \<Longrightarrow> prefix ''</speak>'' u"
  by (auto simp: prefix_append Cons_eq_append_conv)

lemma replace_all_absent: "\<not> indexOf_found s p \<Longrightarrow> replace_all p s = s"
  by (induction s) auto

lemma open_tag_absent_append:
  "\<not> indexOf_found t ''<speak>'' \<Longrightarrow> \<not> indexOf_found (t @ ''</speak>'') ''<speak>''"
proof (induction t)
  case Nil
  then show ?case by simp
next
  case (Cons c t)
  then show ?case using prefix_open_tag_append [of "c # t"] by auto
qed

lemma replace_close_tag_append:
  "\<not> indexOf_found t ''</speak>'' \<Longrightarrow> replace_all ''</speak>'' (t @ ''</speak>'') = t"
proof (induction t)
  case Nil
  then show ?case by simp
next
  case (Cons c t)
  then show ?case using prefix_close_tag_append [of "c # t"] by auto
qed

lemma toSSML_untagged:
  assumes "\<not> indexOf_found t ''<speak>''" and "\<not> indexOf_found t ''</speak>''"
  shows "toSSML t = ''<speak>'' @ t @ ''</speak>''"
  using assms by (simp add: toSSML_def replace_all_absent)

lemma removeSpeakTags_enveloped:
  assumes "\<not> indexOf_found t ''<speak>''" and "\<not> indexOf_found t ''</speak>''"
  shows "removeSpeakTags (''<speak>'' @ t @ ''</speak>'') = t"
proof -
  have "replace_all ''<speak>'' (''<speak>'' @ t @ ''</speak>'') =
      replace_all ''<speak>'' (t @ ''</speak>'')"
    by simp
  also have "\<dots> = t @ ''</speak>''"
    using assms(1) by (simp add: replace_all_absent open_tag_absent_append)
  finally show ?thesis
    using assms(2)
    by (simp add: removeSpeakTags_def replace_close_tag_append del: replace_all.simps)
qed

text \<open>
  Claim C6. For a text \<open>t\<close> in which neither \<^verbatim>\<open><speak>\<close> nor \<^verbatim>\<open></speak>\<close> occurs,
  unwrapping the wrapped text gives \<open>t\<close> back, \<^verbatim>\<open>removeSpeakTags(toSSML(t)) == t\<close>, and
  wrapping is idempotent, \<^verbatim>\<open>toSSML(toSSML(t)) == toSSML(t)\<close>.
\<close>

theorem unwrap_wrap_and_wrap_idempotent:
  assumes "\<not> indexOf_found t ''<speak>''" and "\<not> indexOf_found t ''</speak>''"
  shows "removeSpeakTags (toSSML t) = t \<and> toSSML (toSSML t) = toSSML t"
proof -
  have w: "toSSML t = ''<speak>'' @ t @ ''</speak>''"
    using assms by (rule toSSML_untagged)
  have u: "removeSpeakTags (''<speak>'' @ t @ ''</speak>'') = t"
    using assms by (rule removeSpeakTags_enveloped)
  have "toSSML (''<speak>'' @ t @ ''</speak>'') = ''<speak>'' @ t @ ''</speak>''"
    using u by (simp add: toSSML_def removeSpeakTags_def del: replace_all.simps)
  with w u show ?thesis by simp
qed

text \<open>The theorem at the text \<^verbatim>\<open>hello\<close>.\<close>

theorem unwrap_wrap_and_wrap_idempotent_witness:
  "\<not> indexOf_found ''hello'' ''<speak>'' \<and> \<not> indexOf_found ''hello'' ''</speak>'' \<and>
   removeSpeakTags (toSSML ''hello'') = ''hello'' \<and>
   toSSML (toSSML ''hello'') = toSSML ''hello''"
proof -
  have a: "\<not> indexOf_found ''hello'' ''<speak>''" by simp
  have b: "\<not> indexOf_found ''hello'' ''</speak>''" by simp
  show ?thesis using a b unwrap_wrap_and_wrap_idempotent [OF a b] by simp
qed

subsection \<open>tell and ask\<close>

lemma get_items_cases:
  "get_items r = Inr its \<Longrightarrow>
   \<exists>d g rr. data r = Some d \<and> google d = Some g \<and> richResponse g = Some rr \<and>
     items rr = Some its"
  by (auto simp: get_items_def read_of_def split: option.splits)

lemma given_Some: "given (Some s) = (if s = [] then None else Some s)"
  by (simp add: given_def)

lemma get_items_fresh: "get_items (GoogleActionResponse None) = Inr []"
  by (simp add: get_items_def GoogleActionResponse_def default_responseObj_def read_of_def)

lemma toSSML_enveloped_hi: "toSSML ''<speak>hi</speak>'' = ''<speak>hi</speak>''"
  by (simp add: toSSML_def)

text \<open>Without \<^verbatim>\<open>data.google.richResponse.items\<close> both methods throw.\<close>

lemma tell_throws: "get_items r = Inl e \<Longrightarrow> tell r s = Inl TypeError"
  by (auto simp: get_items_def tell_def read_of_def split: option.splits)

lemma ask_throws: "get_items r = Inl e \<Longrightarrow> ask r s rp = Inl TypeError"
  by (auto simp: get_items_def ask_def read_of_def split: option.splits)

text \<open>
  Claim C1, as amended. \<^verbatim>\<open>tell\<close> stores its argument as given, it does not wrap it:
  for every string \<open>s\<close> and every document that has \<^verbatim>\<open>data.google.richResponse.items\<close>,
  \<^verbatim>\<open>tell(s)\<close> returns, and afterwards \<^verbatim>\<open>speech\<close> is \<open>s\<close>, \<^verbatim>\<open>expectUserResponse\<close> is
  false, the item \<^verbatim>\<open>{simpleResponse: {ssml: s}}\<close> stands in front of the items there were,
  and \<^verbatim>\<open>isTell(s)\<close> is true exactly when \<open>s\<close> is empty or already is its own wrapping,
  \<^verbatim>\<open>toSSML(s) == s\<close>.
\<close>

theorem tell_postcondition:
  assumes "get_items r = Inr its"
  shows "\<exists>r'. tell r s = Inr r' \<and> speech r' = Some s \<and>
           stored_expectUserResponse r' = Some False \<and>
           get_items r' = Inr (simple_item s # its) \<and>
           (isTell r' (Some s) \<longleftrightarrow> s = [] \<or> toSSML s = s)"
proof -
  from assms obtain d g rr where
    *: "data r = Some d" "google d = Some g" "richResponse g = Some rr" "items rr = Some its"
    using get_items_cases by blast
  show ?thesis
    using * by (auto simp: tell_def read_of_def stored_expectUserResponse_def get_items_def
        isTell_def isTell_try_def caught_def speech_checks_def given_Some head_ssml_def
        simple_item_def)
qed

text \<open>The theorem at the fresh document and the enveloped speech \<^verbatim>\<open><speak>hi</speak>\<close>.\<close>

theorem tell_postcondition_witness:
  "\<exists>r'. tell (GoogleActionResponse None :: string response_obj) ''<speak>hi</speak>'' = Inr r' \<and>
     speech r' = Some ''<speak>hi</speak>'' \<and>
     stored_expectUserResponse r' = Some False \<and>
     get_items r' = Inr [simple_item ''<speak>hi</speak>''] \<and>
     isTell r' (Some ''<speak>hi</speak>'')"
  using tell_postcondition [OF get_items_fresh, of "''<speak>hi</speak>''"] toSSML_enveloped_hi
  by simp

text \<open>
  Claim C1 as stated fails: on the fresh document \<^verbatim>\<open>tell('hi')\<close> leaves \<^verbatim>\<open>speech\<close> and
  the ssml of the first item at \<^verbatim>\<open>hi\<close>, not at \<^verbatim>\<open><speak>hi</speak>\<close>, and
  \<^verbatim>\<open>isTell('hi')\<close> is false on the result.
\<close>

theorem tell_isTell_counterexample:
  "tell (GoogleActionResponse None :: string response_obj) ''hi'' =
     Inr \<lparr>speech = Some ''hi'',
          data = Some \<lparr>google = Some
            \<lparr>expectUserResponse = Some False,
             richResponse = Some \<lparr>items = Some
               [\<lparr>simpleResponse = Some \<lparr>ssml = Some ''hi''\<rparr>, basicCard = None\<rparr>]\<rparr>,
             noInputPrompts = None, systemIntent = None, permissions_request = None\<rparr>\<rparr>,
          contextOut = None\<rparr> \<and>
   toSSML ''hi'' = ''<speak>hi</speak>'' \<and>
   \<not> isTell
     (\<lparr>speech = Some ''hi'',
       data = Some \<lparr>google = Some
         \<lparr>expectUserResponse = Some False,
          richResponse = Some \<lparr>items = Some
            [\<lparr>simpleResponse = Some \<lparr>ssml = Some ''hi''\<rparr>, basicCard = None\<rparr>]\<rparr>,
          noInputPrompts = None, systemIntent = None, permissions_request = None\<rparr>\<rparr>,
       contextOut = None\<rparr> :: string response_obj)
     (Some ''hi'')"
  by (simp add: tell_def GoogleActionResponse_def default_responseObj_def read_of_def
      simple_item_def toSSML_def isTell_def isTell_try_def caught_def speech_checks_def given_def)

text \<open>
  Claim C2, as amended. For all strings \<open>s\<close> and \<open>rp\<close> and every document that has
  \<^verbatim>\<open>data.google.richResponse.items\<close>, \<^verbatim>\<open>ask(s, rp)\<close> returns, and afterwards
  \<^verbatim>\<open>expectUserResponse\<close> is true, \<^verbatim>\<open>noInputPrompts\<close> is the one element
  \<^verbatim>\<open>{ssml: rp}\<close> with \<open>rp\<close> as given, \<^verbatim>\<open>speech\<close> is \<open>s\<close> as given and its item
  stands in front; \<^verbatim>\<open>isAsk(s, rp)\<close> is true exactly when each of \<open>s\<close> and \<open>rp\<close> is
  empty or already is its own wrapping.
\<close>

theorem ask_postcondition:
  assumes "get_items r = Inr its"
  shows "\<exists>r'. ask r s rp = Inr r' \<and> speech r' = Some s \<and>
           stored_expectUserResponse r' = Some True \<and>
           stored_noInputPrompts r' = Some [\<lparr>ssml = Some rp\<rparr>] \<and>
           get_items r' = Inr (simple_item s # its) \<and>
           (isAsk r' (Some s) (Some rp) \<longleftrightarrow>
              (s = [] \<or> toSSML s = s) \<and> (rp = [] \<or> toSSML rp = rp))"
proof -
  from assms obtain d g rr where
    *: "data r = Some d" "google d = Some g" "richResponse g = Some rr" "items rr = Some its"
    using get_items_cases by blast
  show ?thesis
    using * by (auto simp: ask_def read_of_def stored_expectUserResponse_def get_items_def
        stored_noInputPrompts_def and_then_def reprompt_check_def
        isAsk_def isAsk_try_def caught_def speech_checks_def given_Some head_ssml_def
        simple_item_def)
qed

text \<open>The theorem at the fresh document, speech and reprompt both \<^verbatim>\<open><speak>hi</speak>\<close>.\<close>

theorem ask_postcondition_witness:
  "\<exists>r'. ask (GoogleActionResponse None :: string response_obj)
            ''<speak>hi</speak>'' ''<speak>hi</speak>'' = Inr r' \<and>
     stored_expectUserResponse r' = Some True \<and>
     stored_noInputPrompts r' = Some [\<lparr>ssml = Some ''<speak>hi</speak>''\<rparr>] \<and>
     isAsk r' (Some ''<speak>hi</speak>'') (Some ''<speak>hi</speak>'')"
  using ask_postcondition [OF get_items_fresh, of "''<speak>hi</speak>''" "''<speak>hi</speak>''"]
    toSSML_enveloped_hi
  by auto

text \<open>
  Claim C2 as stated fails: on the fresh document \<^verbatim>\<open>ask('<speak>hi</speak>', 'again')\<close>
  stores the reprompt \<^verbatim>\<open>again\<close> as given, and \<^verbatim>\<open>isAsk('<speak>hi</speak>', 'again')\<close>,
  which compares the stored reprompt with \<^verbatim>\<open><speak>again</speak>\<close>, is false on the result.
\<close>

theorem ask_isAsk_counterexample:
  "ask (GoogleActionResponse None :: string response_obj) ''<speak>hi</speak>'' ''again'' =
     Inr \<lparr>speech = Some ''<speak>hi</speak>'',
          data = Some \<lparr>google = Some
            \<lparr>expectUserResponse = Some True,
             richResponse = Some \<lparr>items = Some
               [\<lparr>simpleResponse = Some \<lparr>ssml = Some ''<speak>hi</speak>''\<rparr>,
                 basicCard = None\<rparr>]\<rparr>,
             noInputPrompts = Some [\<lparr>ssml = Some ''again''\<rparr>],
             systemIntent = None, permissions_request = None\<rparr>\<rparr>,
          contextOut = None\<rparr> \<and>
   \<not> isAsk
     (\<lparr>speech = Some ''<speak>hi</speak>'',
       data = Some \<lparr>google = Some
         \<lparr>expectUserResponse = Some True,
          richResponse = Some \<lparr>items = Some
            [\<lparr>simpleResponse = Some \<lparr>ssml = Some ''<speak>hi</speak>''\<rparr>,
              basicCard = None\<rparr>]\<rparr>,
          noInputPrompts = Some [\<lparr>ssml = Some ''again''\<rparr>],
          systemIntent = None, permissions_request = None\<rparr>\<rparr>,
       contextOut = None\<rparr> :: string response_obj)
     (Some ''<speak>hi</speak>'') (Some ''again'')"
  by (simp add: ask_def GoogleActionResponse_def default_responseObj_def read_of_def
      simple_item_def toSSML_def isAsk_def isAsk_try_def caught_def speech_checks_def given_def
      head_ssml_def get_items_def and_then_def reprompt_check_def)

text \<open>
  Claim C10. The document of the constructor without an argument has
  \<^verbatim>\<open>expectUserResponse\<close> true: \<^verbatim>\<open>isAsk()\<close> is true and \<^verbatim>\<open>isTell()\<close> is false on it.
\<close>

theorem fresh_document_isAsk_not_isTell:
  "isAsk (GoogleActionResponse None) None None \<and>
   \<not> isTell (GoogleActionResponse None) None \<and>
   stored_expectUserResponse (GoogleActionResponse None) = Some True"
  by (simp add: GoogleActionResponse_def default_responseObj_def isAsk_def isAsk_try_def
      isTell_def isTell_try_def caught_def read_of_def speech_checks_def reprompt_check_def
      and_then_def given_def stored_expectUserResponse_def)

subsection \<open>Predicates and getters that throw\<close>

text \<open>
  Claim C3 does not hold of the code. The predicates with a \<^verbatim>\<open>try\<close> return a boolean
  whatever the document is (\<open>isTell\<close>, \<open>isAsk\<close>, \<open>isPlay\<close>, \<open>isEmptyResponse\<close>,
  \<open>hasBasicCard\<close> and \<open>hasImageCard\<close> are of type \<open>bool\<close>). The three without one throw
  on the fresh document: \<^verbatim>\<open>hasContextOutParameter\<close> and \<^verbatim>\<open>hasState\<close> because
  \<^verbatim>\<open>contextOut\<close> is missing, \<^verbatim>\<open>speechTextContains\<close> because \<^verbatim>\<open>items\<close> is empty.
\<close>

theorem predicates_throw_on_fresh_document:
  "hasContextOutParameter (GoogleActionResponse None) contextName parameterName v
     = Inl TypeError \<and>
   hasState (GoogleActionResponse None) state = Inl TypeError \<and>
   speechTextContains (GoogleActionResponse None) str = Inl TypeError"
  by (simp add: GoogleActionResponse_def default_responseObj_def hasContextOutParameter_def
      hasState_def getContextOut_def read_of_def speechTextContains_def getSpeechText_def
      head_ssml_def get_items_def)

text \<open>
  Claim C4 does not hold of the code. On the fresh document, whose \<^verbatim>\<open>items\<close> is empty,
  \<^verbatim>\<open>getSpeechText()\<close> throws a \<^verbatim>\<open>TypeError\<close> instead of returning the empty string:
  \<^verbatim>\<open>items[0]\<close> is \<^verbatim>\<open>undefined\<close> and \<^verbatim>\<open>.simpleResponse\<close> is read of it.
\<close>

theorem getSpeechText_throws_on_empty_items:
  "getSpeechText (GoogleActionResponse None) = Inl TypeError"
  by (simp add: GoogleActionResponse_def default_responseObj_def read_of_def getSpeechText_def
      head_ssml_def get_items_def)

text \<open>
  Where the first item is a simple response whose ssml is empty or missing, the empty
  string is returned, as the guard of the source intends.
\<close>

lemma getSpeechText_empty_ssml:
  assumes "get_items r = Inr (it # its)" and "simpleResponse it = Some sr"
    and "ssml sr = None \<or> ssml sr = Some []"
  shows "getSpeechText r = Inr []"
  using assms by (auto simp: getSpeechText_def head_ssml_def read_of_def given_def)

text \<open>
  Claim C5 does not hold of the code. On a document whose \<^verbatim>\<open>contextOut\<close> is the empty
  array, \<^verbatim>\<open>getContextOut(name)\<close> returns the empty object, and
  \<^verbatim>\<open>getContextOutParameter(name, parameterName)\<close> throws a \<^verbatim>\<open>TypeError\<close>, not the
  error \<^verbatim>\<open>No context with name ... found.\<close>: the empty object is truthy, the guard
  \<^verbatim>\<open>!context\<close> lets it pass, and \<^verbatim>\<open>context.parameters[parameterName]\<close> reads a property
  of \<^verbatim>\<open>undefined\<close>.
\<close>

theorem getContextOutParameter_without_contexts:
  "getContextOutParameter (setContextOut (GoogleActionResponse None) []) contextName
     parameterName = Inl TypeError \<and>
   getContextOut (setContextOut (GoogleActionResponse None) []) contextName
     = Inr empty_context"
  by (simp add: getContextOutParameter_def getContextOut_def setContextOut_def read_of_def
      object_truthy_def empty_context_def)

text \<open>The guard never fires: no document makes the method throw the intended error.\<close>

lemma getContextOutParameter_never_not_found:
  "getContextOutParameter r contextName parameterName \<noteq> Inl (Error msg)"
  by (auto simp: getContextOutParameter_def getContextOut_def read_of_def object_truthy_def
      split: option.splits)

subsection \<open>Contexts\<close>

lemma update_context_absent:
  "\<forall>c \<in> set cs. name c \<noteq> Some n \<Longrightarrow> update_context f cs n = cs"
  by (induction cs) auto

text \<open>
  Claim C8. On a document that has \<^verbatim>\<open>contextOut\<close> and, in it, no context of the name,
  \<^verbatim>\<open>addContextOutParameter\<close> returns the document as it was, whatever lodash's
  \<^verbatim>\<open>_.set\<close> writes to the object it is given.
\<close>

theorem addContextOutParameter_absent_context:
  assumes "contextOut r = Some cs" and "\<forall>c \<in> set cs. name c \<noteq> Some contextName"
  shows "addContextOutParameter lodash_set r contextName parameterName v = Inr r"
  using assms by (simp add: addContextOutParameter_def read_of_def update_context_absent)

text \<open>
  The theorem at a document with the one context \<^verbatim>\<open>other\<close>, for the name
  \<^verbatim>\<open>session\<close> and a \<^verbatim>\<open>_.set\<close> that does write.
\<close>

theorem addContextOutParameter_absent_context_witness:
  "addContextOutParameter (\<lambda>c path v. c\<lparr>parameters := Some [path \<mapsto> v]\<rparr>)
     (setContextOut (GoogleActionResponse None)
        [\<lparr>name = Some ''other'', parameters = None\<rparr>])
     ''session'' ''STATE'' ''Start''
   = Inr (setContextOut (GoogleActionResponse None)
        [\<lparr>name = Some ''other'', parameters = None\<rparr>])"
  by (rule addContextOutParameter_absent_context
        [where cs = "[\<lparr>name = Some ''other'', parameters = None\<rparr>]"])
     (simp_all add: setContextOut_def)

text \<open>Where the context is there, the same call does write to the document.\<close>

lemma addContextOutParameter_present_context:
  "addContextOutParameter lodash_set
     (setContextOut r (\<lparr>name = Some n, parameters = ps\<rparr> # cs)) n parameterName v
   = Inr (setContextOut r
       (lodash_set \<lparr>name = Some n, parameters = ps\<rparr> (''parameters.'' @ parameterName) v # cs))"
  by (simp add: addContextOutParameter_def read_of_def setContextOut_def)

subsection \<open>Permissions\<close>

lemma getPermissions_fresh: "getPermissions (GoogleActionResponse None) = []"
  by (simp add: getPermissions_def GoogleActionResponse_def default_responseObj_def)

lemma getPermissions_set:
  "getPermissions (setPermissionToResponse r p) = uniq (getPermissions r @ [p])"
  by (simp add: setPermissionToResponse_def getPermissions_def set_in_google_def Let_def)

lemma set_uniq_into: "set (uniq_into seen xs) = set seen \<union> set xs"
  by (induction xs arbitrary: seen) auto

lemma distinct_uniq_into: "distinct seen \<Longrightarrow> distinct (uniq_into seen xs)"
  by (induction xs arbitrary: seen) auto

lemma uniq_into_extends: "\<exists>rest. uniq_into seen xs = seen @ rest"
  by (induction xs arbitrary: seen) (auto, metis append.assoc)

lemma set_uniq: "set (uniq xs) = set xs"
  by (simp add: uniq_def set_uniq_into)

lemma distinct_uniq: "distinct (uniq xs)"
  by (simp add: uniq_def distinct_uniq_into)

lemma count_list_distinct: "distinct xs \<Longrightarrow> x \<in> set xs \<Longrightarrow> count_list xs x = 1"
  by (induction xs) auto

lemma takeWhile_absent: "q \<notin> set xs \<Longrightarrow> takeWhile (\<lambda>x. x \<noteq> q) xs = xs"
  by auto

text \<open>What stands ahead of the first \<open>q\<close> is deduplicated on its own.\<close>

lemma takeWhile_uniq_into:
  "q \<notin> set seen \<Longrightarrow>
   takeWhile (\<lambda>x. x \<noteq> q) (uniq_into seen xs) = uniq_into seen (takeWhile (\<lambda>x. x \<noteq> q) xs)"
proof (induction xs arbitrary: seen)
  case Nil
  then show ?case by (simp add: takeWhile_absent)
next
  case (Cons x xs)
  show ?case
  proof (cases "x = q")
    case True
    obtain rest where "uniq_into (seen @ [q]) xs = (seen @ [q]) @ rest"
      using uniq_into_extends by blast
    then show ?thesis
      using True Cons.prems by (simp add: takeWhile_append takeWhile_absent)
  next
    case False
    with Cons show ?thesis by simp
  qed
qed

lemma occurs_before_uniq: "occurs_before p q (uniq xs) = occurs_before p q xs"
  by (simp add: occurs_before_def uniq_def takeWhile_uniq_into set_uniq_into)

lemma occurs_before_snoc: "occurs_before p q (xs @ [q]) = occurs_before p q xs"
  by (cases "q \<in> set xs") (auto simp: occurs_before_def takeWhile_append takeWhile_absent)

lemma occurs_before_snoc_self:
  "p \<noteq> q \<Longrightarrow> occurs_before p q (xs @ [p]) = (q \<notin> set xs \<or> occurs_before p q xs)"
  by (cases "q \<in> set xs") (auto simp: occurs_before_def takeWhile_append takeWhile_absent)

text \<open>
  Claim C7, as amended. For every document, \<^verbatim>\<open>setPermissionToResponse\<close> called twice
  with one value \<open>p\<close> leaves exactly one \<open>p\<close> in the permissions. Called with \<open>p\<close>
  and then with another value \<open>q\<close>, it leaves each of the two exactly once, and
  \<open>p\<close> ahead of \<open>q\<close> exactly when the document did not hold \<open>q\<close> before, or held
  \<open>p\<close> ahead of it: a value that is stored keeps its place.
\<close>

theorem setPermissionToResponse_idempotent_ordered:
  assumes "p \<noteq> q"
  shows
   "count_list (getPermissions (setPermissionToResponse (setPermissionToResponse r p) p)) p = 1 \<and>
    count_list (getPermissions (setPermissionToResponse (setPermissionToResponse r p) q)) p = 1 \<and>
    count_list (getPermissions (setPermissionToResponse (setPermissionToResponse r p) q)) q = 1 \<and>
    (occurs_before p q
       (getPermissions (setPermissionToResponse (setPermissionToResponse r p) q))
     \<longleftrightarrow> q \<notin> set (getPermissions r) \<or> occurs_before p q (getPermissions r))"
proof -
  let ?old = "getPermissions r"
  have one: "count_list (uniq (uniq (?old @ [p]) @ [x])) y = 1" if "y = p \<or> y = x" for x y
    using that by (intro count_list_distinct) (auto simp: distinct_uniq set_uniq)
  have "occurs_before p q (uniq (uniq (?old @ [p]) @ [q])) = occurs_before p q (?old @ [p])"
    by (simp add: occurs_before_uniq occurs_before_snoc)
  then have ord: "occurs_before p q (uniq (uniq (?old @ [p]) @ [q]))
      \<longleftrightarrow> q \<notin> set ?old \<or> occurs_before p q ?old"
    using assms by (simp add: occurs_before_snoc_self)
  show ?thesis
    using one [of p p] one [of p q] one [of q q] ord by (simp add: getPermissions_set)
qed

text \<open>
  The theorem at the fresh document: the name permission twice, and the name permission
  followed by the coarse location.
\<close>

theorem setPermissionToResponse_idempotent_ordered_witness:
  "PERMISSIONS_ENUM_NAME \<noteq> PERMISSIONS_ENUM_DEVICE_COARSE_LOCATION \<and>
   getPermissions (setNamePermission (setNamePermission
      (GoogleActionResponse None :: string response_obj))) = [PERMISSIONS_ENUM_NAME] \<and>
   occurs_before PERMISSIONS_ENUM_NAME PERMISSIONS_ENUM_DEVICE_COARSE_LOCATION
     (getPermissions (setDeviceCoarseLocationPermission (setNamePermission
        (GoogleActionResponse None :: string response_obj))))"
proof -
  have ne: "PERMISSIONS_ENUM_NAME \<noteq> PERMISSIONS_ENUM_DEVICE_COARSE_LOCATION"
    by (simp add: PERMISSIONS_ENUM_NAME_def PERMISSIONS_ENUM_DEVICE_COARSE_LOCATION_def)
  have once: "getPermissions (setNamePermission (setNamePermission
      (GoogleActionResponse None :: string response_obj))) = [PERMISSIONS_ENUM_NAME]"
    by (simp add: setNamePermission_def getPermissions_set getPermissions_fresh uniq_def)
  show ?thesis
    using setPermissionToResponse_idempotent_ordered
        [OF ne, of "GoogleActionResponse None :: string response_obj"]
      ne once
    by (simp add: setNamePermission_def setDeviceCoarseLocationPermission_def
        getPermissions_fresh)
qed

text \<open>
  Claim C7 as stated fails where the document holds the second value already: on a
  document with the coarse location requested, the name permission and then the coarse
  location leave the coarse location first, against the order of the two calls.
\<close>

theorem setPermissionToResponse_order_counterexample:
  "getPermissions (setDeviceCoarseLocationPermission (setNamePermission
      (setDeviceCoarseLocationPermission (GoogleActionResponse None :: string response_obj))))
     = [''DEVICE_COARSE_LOCATION'', ''NAME''] \<and>
   \<not> occurs_before ''NAME'' ''DEVICE_COARSE_LOCATION''
     (getPermissions (setDeviceCoarseLocationPermission (setNamePermission
        (setDeviceCoarseLocationPermission
           (GoogleActionResponse None :: string response_obj)))))"
  by (simp add: setNamePermission_def setDeviceCoarseLocationPermission_def getPermissions_set
      getPermissions_fresh uniq_def occurs_before_def PERMISSIONS_ENUM_NAME_def
      PERMISSIONS_ENUM_DEVICE_COARSE_LOCATION_def)

subsection \<open>Lists and carousels\<close>

lemma stored_systemIntent_set:
  "stored_systemIntent (set_in_google r (\<lambda>g. g\<lparr>systemIntent := Some si\<rparr>)) = Some si"
  by (simp add: stored_systemIntent_def set_in_google_def Let_def)

text \<open>
  Claim C9. After any sequence of \<^verbatim>\<open>addList\<close> and \<^verbatim>\<open>addCarousel\<close> calls on any
  document, the stored system intent is that of the last call alone: the intent
  \<^verbatim>\<open>actions.intent.OPTION\<close>, the given list under \<^verbatim>\<open>listSelect\<close> (and no
  \<^verbatim>\<open>carouselSelect\<close>) or the given carousel under \<^verbatim>\<open>carouselSelect\<close> (and no
  \<^verbatim>\<open>listSelect\<close>), and the \<^verbatim>\<open>@type\<close>
  \<^verbatim>\<open>type.googleapis.com/google.actions.v2.OptionValueSpec\<close>.
\<close>

theorem last_option_call_wins:
  "stored_systemIntent (run_calls r (cs @ [AddList list])) =
     Some \<lparr>intent = ''actions.intent.OPTION'',
           intent_data = \<lparr>listSelect = Some list, carouselSelect = None,
             at_type = ''type.googleapis.com/google.actions.v2.OptionValueSpec''\<rparr>\<rparr> \<and>
   stored_systemIntent (run_calls r (cs @ [AddCarousel carousel])) =
     Some \<lparr>intent = ''actions.intent.OPTION'',
           intent_data = \<lparr>listSelect = None, carouselSelect = Some carousel,
             at_type = ''type.googleapis.com/google.actions.v2.OptionValueSpec''\<rparr>\<rparr>"
  by (simp add: run_calls_def addList_def addCarousel_def stored_systemIntent_set Let_def)

end
